theory Spec2Isabelle
  imports Complex_Main
begin

section \<open>The plotting facade \<open>uti_plot.py\<close> of SRW\<close>

text \<open>
  The module keeps one process-wide handle \<open>_backend\<close> and forwards every plot request
  to it. What lies outside the module is taken as a parameter: the constructor of the
  matplotlib backend, the methods of a constructed backend, \<open>uti_plot_com.rescale_dim\<close>,
  and the text that \<open>str\<close> gives for a float. The semantics is that of Python 3.
\<close>

subsection \<open>Values, exceptions, state\<close>

text \<open>
  A number is a Python \<open>int\<close> or a Python \<open>float\<close>. A float is carried as the exact
  rational it denotes: IEEE rounding, infinities and NaN are outside the model.
\<close>

datatype num = PyInt int | PyFloat rat

datatype pyval =
    PyNone
  | PyBool bool
  | PyNum num
  | PyStr string
  | PyList "pyval list"
  | PyTuple "pyval list"
  | PyArray "pyval list"

datatype exn =
    ValueError string
  | NameError string
  | IndexError
  | TypeError
  | ZeroDivisionError
  | Exception string

text \<open>What the module writes: \<open>traceback.print_exc()\<close> and \<open>print\<close>.\<close>

datatype printed = Traceback exn | Line string

text \<open>
  The handle: the proxy installed at import time (line 302), the no-op backend, or an
  object built by \<open>uti_plot_matplotlib.Backend\<close>.
\<close>

datatype 'b handle = BackendMissing | BackendNone | BackendReal 'b

record ('b, 'w) state =
  backend :: "'b handle"
  out :: "printed list"
  world :: 'w

text \<open>
  The collaborators. \<open>construct\<close> is the import of \<open>uti_plot_matplotlib\<close> followed by
  \<open>Backend(backend, fname_format)\<close>; \<open>invoke b name args kwargs\<close> is
  \<open>getattr(b, name)(*args, **kwargs)\<close> on a constructed backend. Both act on the
  world outside the module (figures, files, the graphics library) and may raise.
  \<open>rescale_dim\<close> is pure. \<open>float_repr\<close> is \<open>str\<close> on a float.
\<close>

record ('b, 'w) collab =
  construct :: "string \<Rightarrow> string option \<Rightarrow> 'w \<Rightarrow> (exn + 'b) \<times> 'w"
  invoke :: "'b \<Rightarrow> string \<Rightarrow> pyval list \<Rightarrow> (string \<times> pyval) list \<Rightarrow> 'w \<Rightarrow> (exn + pyval) \<times> 'w"
  rescale_dim :: "num list \<Rightarrow> string \<Rightarrow> num list \<times> string"
  float_repr :: "rat \<Rightarrow> string"

definition DEFAULT_BACKEND :: string where
  "DEFAULT_BACKEND = ''<default>''"

subsection \<open>Backend selection (lines 44-69)\<close>

definition uti_plot_init ::
  "('b, 'w) collab \<Rightarrow> string option \<Rightarrow> string option \<Rightarrow> ('b, 'w) state
     \<Rightarrow> (exn + unit) \<times> ('b, 'w) state" where
  "uti_plot_init C backend_id fname_format s =
     (case backend_id of
        Some b \<Rightarrow>
          (case construct C b fname_format (world s) of
             (Inr obj, w) \<Rightarrow> (Inr (), s\<lparr>backend := BackendReal obj, world := w\<rparr>)
           | (Inl e, w) \<Rightarrow>
               (Inr (), s\<lparr>backend := BackendNone,
                  out := out s @ [Traceback e,
                    Line (b @ '': unable to import specified backend (or its dependency); no plots'')],
                  world := w\<rparr>))
      | None \<Rightarrow>
          (case fname_format of
             Some f \<Rightarrow> (Inl (ValueError (f @ '': fname_format must be null if backend is None'')), s)
           | None \<Rightarrow> (Inr (), s\<lparr>backend := BackendNone\<rparr>)))"

subsection \<open>Calling a method of the handle (lines 287-302)\<close>

text \<open>
  \<open>backend_method C caller attr args kwargs\<close> is the call
  \<open>_backend.attr(*args, **kwargs)\<close> written in the body of the function \<open>caller\<close>,
  for an attribute that only \<open>__getattr__\<close> resolves on the two classes of the module
  (every name the plot functions use). On the no-op backend this is \<open>_backend_call\<close>
  of \<open>_BackendNone\<close>, which does nothing. On the proxy, \<open>__getattr__\<close> returns \<open>_backend_call\<close> whatever the attribute is;
  it initialises with the defaults, reads the name of the calling function from the
  frame, and calls the method of that name on the handle that is installed now, with
  the positional arguments only. That inner call is made from \<open>_backend_call\<close>.
\<close>

function backend_method ::
  "('b, 'w) collab \<Rightarrow> string \<Rightarrow> string \<Rightarrow> pyval list \<Rightarrow> (string \<times> pyval) list
     \<Rightarrow> ('b, 'w) state \<Rightarrow> (exn + pyval) \<times> ('b, 'w) state" where
  "backend_method C caller attr args kwargs s =
     (case backend s of
        BackendReal b \<Rightarrow>
          (case invoke C b attr args kwargs (world s) of
             (r, w) \<Rightarrow> (r, s\<lparr>world := w\<rparr>))
      | BackendNone \<Rightarrow> (Inr PyNone, s)
      | BackendMissing \<Rightarrow>
          (case uti_plot_init C (Some DEFAULT_BACKEND) None s of
             (Inl e, s1) \<Rightarrow> (Inl e, s1)
           | (Inr u, s1) \<Rightarrow> backend_method C ''_backend_call'' caller args [] s1))"
  by pat_completeness auto
termination
  apply (relation "measure (\<lambda>(C, caller, attr, args, kwargs, s).
           if backend s = BackendMissing then 1 else 0)")
   apply simp
  apply (auto simp: uti_plot_init_def split: prod.splits sum.splits)
  done

declare backend_method.simps [simp del]

text \<open>A facade function returns nothing: the result of the backend is dropped.\<close>

definition discard :: "(exn + pyval) \<times> 's \<Rightarrow> (exn + unit) \<times> 's" where
  "discard p = (case p of (Inl e, s) \<Rightarrow> (Inl e, s) | (Inr v, s) \<Rightarrow> (Inr (), s))"

subsection \<open>Indexing, sequencing, numbers\<close>

text \<open>
  \<open>xs[i]\<close> for a literal index \<open>i \<ge> 0\<close> raises IndexError out of range. \<open>bindE\<close>
  is sequencing: the first exception ends the evaluation.
\<close>

definition getitem :: "'a list \<Rightarrow> nat \<Rightarrow> exn + 'a" where
  "getitem xs i = (if i < length xs then Inr (xs ! i) else Inl IndexError)"

definition bindE :: "exn + 'a \<Rightarrow> ('a \<Rightarrow> exn + 'c) \<Rightarrow> exn + 'c" where
  "bindE m f = (case m of Inl e \<Rightarrow> Inl e | Inr v \<Rightarrow> f v)"

fun num_val :: "num \<Rightarrow> rat" where
  "num_val (PyInt i) = of_int i"
| "num_val (PyFloat q) = q"


fun num_mul :: "num \<Rightarrow> num \<Rightarrow> num" where
  "num_mul (PyInt i) (PyInt j) = PyInt (i * j)"
| "num_mul a b = PyFloat (num_val a * num_val b)"





text \<open>\<open>str\<close> of a number: decimal digits for an int, the collaborator for a float.\<close>

definition digit_chars :: string where
  "digit_chars = ''0123456789''"

function str_nat :: "nat \<Rightarrow> string" where
  "str_nat n =
     (if n < 10 then [digit_chars ! n] else str_nat (n div 10) @ [digit_chars ! (n mod 10)])"
  by pat_completeness auto
termination
  by (relation "measure (\<lambda>n. n)") auto

declare str_nat.simps [simp del]

definition str_int :: "int \<Rightarrow> string" where
  "str_int i = (if i < 0 then ''-'' @ str_nat (nat (- i)) else str_nat (nat i))"


text \<open>
  Labels and units are sequences of strings, a range is a sequence of numbers; this is
  how they are handed to the backend. A range may be absent.
\<close>

definition labels_val :: "string list \<Rightarrow> pyval" where
  "labels_val ls = PyTuple (map PyStr ls)"

definition range_val :: "num list \<Rightarrow> pyval" where
  "range_val r = PyList (map PyNum r)"

definition opt_range_val :: "num list option \<Rightarrow> pyval" where
  "opt_range_val r = (case r of None \<Rightarrow> PyNone | Some xs \<Rightarrow> range_val xs)"

text \<open>
  The two lines every plot function repeats when units are given (88-89, 108-109,
  142-143, 166-167): the title is the third label or empty, the first two labels get
  their unit in brackets.
\<close>

definition decorate :: "string list \<Rightarrow> string list \<Rightarrow> exn + string list" where
  "decorate labels units =
     (let strTitle = (if length labels < 3 then [] else labels ! 2)
      in bindE (getitem labels 0) (\<lambda>l0.
         bindE (getitem units 0) (\<lambda>u0.
         bindE (getitem labels 1) (\<lambda>l1.
         bindE (getitem units 1) (\<lambda>u1.
           Inr [l0 @ '' ['' @ u0 @ '']'', l1 @ '' ['' @ u1 @ '']'', strTitle])))))"

subsection \<open>The plot functions\<close>

definition uti_plot_show ::
  "('b, 'w) collab \<Rightarrow> ('b, 'w) state \<Rightarrow> (exn + unit) \<times> ('b, 'w) state" where
  "uti_plot_show C s = discard (backend_method C ''uti_plot_show'' ''uti_plot_show'' [] [] s)"

text \<open>Lines 76-92.\<close>

definition uti_plot1d ::
  "('b, 'w) collab \<Rightarrow> pyval \<Rightarrow> num list \<Rightarrow> string list \<Rightarrow> string list option
     \<Rightarrow> ('b, 'w) state \<Rightarrow> (exn + unit) \<times> ('b, 'w) state" where
  "uti_plot1d C ar1d x_range labels units s =
     (case units of
        None \<Rightarrow>
          discard (backend_method C ''uti_plot1d'' ''uti_plot1d''
            [ar1d, range_val x_range, labels_val labels] [] s)
      | Some us \<Rightarrow>
          (case bindE (getitem us 0) (\<lambda>u0.
                  case rescale_dim C x_range u0 of (x_range', x_unit) \<Rightarrow>
                  bindE (getitem us 1) (\<lambda>u1.
                  bindE (decorate labels [x_unit, u1]) (\<lambda>labels'.
                    Inr (x_range', labels'))))
           of Inl e \<Rightarrow> (Inl e, s)
            | Inr (x_range', labels') \<Rightarrow>
                discard (backend_method C ''uti_plot1d'' ''uti_plot1d''
                  [ar1d, range_val x_range', labels_val labels'] [] s)))"

text \<open>
  Lines 94-128. The test of line 114 names three classes. A global name is looked up
  among the top-level bindings of the module and then among the builtins. The module
  binds \<open>uti_plot_com\<close>, \<open>sys\<close>, \<open>traceback\<close>, \<open>_backend\<close>, \<open>DEFAULT_BACKEND\<close>, its
  nine functions and its three classes; \<open>list\<close> and \<open>tuple\<close> are builtins; \<open>array\<close>
  is neither, so that loading it raises NameError.
\<close>

datatype pyclass = ClassList | ClassTuple

definition builtin_classes :: "(string \<times> pyclass) list" where
  "builtin_classes = [(''list'', ClassList), (''tuple'', ClassTuple)]"

definition load_name :: "string \<Rightarrow> exn + pyclass" where
  "load_name n = (case map_of builtin_classes n of Some c \<Rightarrow> Inr c | None \<Rightarrow> Inl (NameError n))"

fun isinstance :: "pyval \<Rightarrow> pyclass \<Rightarrow> bool" where
  "isinstance (PyList xs) ClassList = True"
| "isinstance (PyTuple xs) ClassTuple = True"
| "isinstance v c = False"

text \<open>\<open>isinstance(ary0, list) or isinstance(ary0, array) or isinstance(ary0, tuple)\<close>,
  evaluated from left to right, stopping at the first true disjunct.\<close>

definition is_sequence :: "pyval \<Rightarrow> exn + bool" where
  "is_sequence v =
     bindE (load_name ''list'') (\<lambda>c1. if isinstance v c1 then Inr True else
     bindE (load_name ''array'') (\<lambda>c2. if isinstance v c2 then Inr True else
     bindE (load_name ''tuple'') (\<lambda>c3. Inr (isinstance v c3))))"

fun py_len :: "pyval \<Rightarrow> exn + nat" where
  "py_len (PyList xs) = Inr (length xs)"
| "py_len (PyTuple xs) = Inr (length xs)"
| "py_len (PyArray xs) = Inr (length xs)"
| "py_len (PyStr cs) = Inr (length cs)"
| "py_len v = Inl TypeError"

fun py_getitem :: "pyval \<Rightarrow> nat \<Rightarrow> exn + pyval" where
  "py_getitem (PyList xs) i = getitem xs i"
| "py_getitem (PyTuple xs) i = getitem xs i"
| "py_getitem (PyArray xs) i = getitem xs i"
| "py_getitem (PyStr cs) i = (if i < length cs then Inr (PyStr [cs ! i]) else Inl IndexError)"
| "py_getitem v i = Inl TypeError"

text \<open>The loop of lines 122-125, over the two lists allocated at lines 120-121.\<close>

function pairs_loop ::
  "pyval \<Rightarrow> nat \<Rightarrow> nat \<Rightarrow> pyval list \<Rightarrow> pyval list \<Rightarrow> exn + (pyval list \<times> pyval list)" where
  "pairs_loop ary lenData i arx aryNew =
     (if i < lenData then
        (case py_getitem ary i of
           Inl e \<Rightarrow> Inl e
         | Inr ay_i \<Rightarrow>
             (case py_getitem ay_i 0 of
                Inl e \<Rightarrow> Inl e
              | Inr a \<Rightarrow>
                  (case py_getitem ay_i 1 of
                     Inl e \<Rightarrow> Inl e
                   | Inr b \<Rightarrow> pairs_loop ary lenData (Suc i) (arx[i := a]) (aryNew[i := b]))))
      else Inr (arx, aryNew))"
  by pat_completeness auto
termination
  by (relation "measure (\<lambda>(ary, lenData, i, arx, aryNew). lenData - i)") auto

declare pairs_loop.simps [simp del]

definition uti_plot1d_ir ::
  "('b, 'w) collab \<Rightarrow> pyval \<Rightarrow> pyval \<Rightarrow> string list \<Rightarrow> string list option
     \<Rightarrow> ('b, 'w) state \<Rightarrow> (exn + unit) \<times> ('b, 'w) state" where
  "uti_plot1d_ir C ary arx labels units s =
     (case (case units of None \<Rightarrow> Inr labels | Some us \<Rightarrow> decorate labels us) of
        Inl e \<Rightarrow> (Inl e, s)
      | Inr labels' \<Rightarrow>
          (if arx = PyNone then
             (case bindE (is_sequence ary) (\<lambda>ok.
                     if \<not> ok
                     then Inl (Exception ''Incorrect definition of data arrays / lists to be plotted'')
                     else bindE (py_len ary) (\<lambda>lenData.
                       pairs_loop ary lenData 0
                         (replicate lenData (PyNum (PyInt 0)))
                         (replicate lenData (PyNum (PyInt 0)))))
              of Inl e \<Rightarrow> (Inl e, s)
               | Inr (arx', aryNew) \<Rightarrow>
                   discard (backend_method C ''uti_plot1d_ir'' ''uti_plot1d_ir''
                     [PyList aryNew, PyList arx', labels_val labels'] [] s))
           else
             discard (backend_method C ''uti_plot1d_ir'' ''uti_plot1d_ir''
               [ary, arx, labels_val labels'] [] s)))"

text \<open>Lines 130-145.\<close>

definition uti_plot1d_m ::
  "('b, 'w) collab \<Rightarrow> pyval \<Rightarrow> string list \<Rightarrow> string list option \<Rightarrow> pyval \<Rightarrow> pyval
     \<Rightarrow> ('b, 'w) state \<Rightarrow> (exn + unit) \<times> ('b, 'w) state" where
  "uti_plot1d_m C ars labels units styles legend s =
     (case (case units of None \<Rightarrow> Inr labels | Some us \<Rightarrow> decorate labels us) of
        Inl e \<Rightarrow> (Inl e, s)
      | Inr labels' \<Rightarrow>
          discard (backend_method C ''uti_plot1d_m'' ''uti_plot1d_m''
            [ars, labels_val labels', styles, legend] [] s))"

text \<open>Lines 147-169.\<close>

definition uti_plot2d ::
  "('b, 'w) collab \<Rightarrow> pyval \<Rightarrow> num list option \<Rightarrow> num list option \<Rightarrow> string list
     \<Rightarrow> string list option \<Rightarrow> ('b, 'w) state \<Rightarrow> (exn + unit) \<times> ('b, 'w) state" where
  "uti_plot2d C ar2d x_range y_range labels units s =
     (case (units, x_range, y_range) of
        (Some us, Some xr, Some yr) \<Rightarrow>
          (case bindE (getitem us 0) (\<lambda>u0.
                  case rescale_dim C xr u0 of (xr', x_unit) \<Rightarrow>
                  bindE (getitem us 1) (\<lambda>u1.
                  case rescale_dim C yr u1 of (yr', y_unit) \<Rightarrow>
                  bindE (getitem us 2) (\<lambda>u2.
                  bindE (decorate labels [x_unit, y_unit, u2]) (\<lambda>labels'.
                    Inr (xr', yr', labels')))))
           of Inl e \<Rightarrow> (Inl e, s)
            | Inr (xr', yr', labels') \<Rightarrow>
                discard (backend_method C ''uti_plot2d'' ''uti_plot2d''
                  [ar2d, range_val xr', range_val yr', labels_val labels'] [] s))
      | _ \<Rightarrow>
          discard (backend_method C ''uti_plot2d'' ''uti_plot2d''
            [ar2d, opt_range_val x_range, opt_range_val y_range, labels_val labels] [] s))"





text \<open>Lines 236-256 and 261-285.\<close>

definition uti_plot_data_file ::
  "('b, 'w) collab \<Rightarrow> pyval \<Rightarrow> pyval \<Rightarrow> pyval \<Rightarrow> pyval \<Rightarrow> pyval \<Rightarrow> pyval \<Rightarrow> pyval \<Rightarrow> pyval
     \<Rightarrow> pyval \<Rightarrow> pyval \<Rightarrow> pyval \<Rightarrow> ('b, 'w) state \<Rightarrow> (exn + unit) \<times> ('b, 'w) state" where
  "uti_plot_data_file C fname read_labels e x y graphs_joined multicolumn_data column_x
       column_y scale width_pixels s =
     discard (backend_method C ''uti_plot_data_file'' ''uti_plot_data_file''
       [fname, read_labels, e, x, y, graphs_joined, multicolumn_data, column_x, column_y,
        scale, width_pixels] [] s)"

definition uti_data_file_plot ::
  "('b, 'w) collab \<Rightarrow> pyval \<Rightarrow> pyval \<Rightarrow> pyval \<Rightarrow> pyval \<Rightarrow> pyval \<Rightarrow> pyval \<Rightarrow> pyval \<Rightarrow> pyval
     \<Rightarrow> pyval \<Rightarrow> pyval \<Rightarrow> pyval \<Rightarrow> ('b, 'w) state \<Rightarrow> (exn + unit) \<times> ('b, 'w) state" where
  "uti_data_file_plot C fname read_labels e x y graphs_joined multicolumn_data column_x
       column_y scale width_pixels s =
     (case uti_plot_data_file C fname read_labels e x y graphs_joined multicolumn_data
             column_x column_y scale width_pixels s of
        (Inl ex, s') \<Rightarrow> (Inl ex, s')
      | (Inr u, s') \<Rightarrow> (Inr (), s'))"

subsection \<open>Collaborators and inputs for the examples\<close>

text \<open>
  A backend that only records the calls it receives, with the identity for
  \<open>rescale_dim\<close>; the same where the construction of the backend fails; and the same
  with a \<open>rescale_dim\<close> that goes to the thousandth of the unit. \<open>repr_integral\<close> is
  \<open>str\<close> on a float whose value is an integer (\<open>2.0\<close>); the examples print no other
  float.
\<close>

type_synonym call_log = "(string \<times> pyval list \<times> (string \<times> pyval) list) list"

definition repr_integral :: "rat \<Rightarrow> string" where
  "repr_integral q = str_int \<lfloor>q\<rfloor> @ ''.0''"

definition recording :: "(unit, call_log) collab" where
  "recording =
     \<lparr>construct = (\<lambda>b f w. (Inr (), w)),
      invoke = (\<lambda>b name args kwargs w. (Inr PyNone, w @ [(name, args, kwargs)])),
      rescale_dim = (\<lambda>r u. (r, u)),
      float_repr = repr_integral\<rparr>"

definition headless :: "(unit, call_log) collab" where
  "headless = recording\<lparr>construct := (\<lambda>b f w. (Inl (Exception ''No module named matplotlib''), w))\<rparr>"

definition to_milli :: "num list \<Rightarrow> string \<Rightarrow> num list \<times> string" where
  "to_milli r u =
     (case r of
        a # b # rest \<Rightarrow> (num_mul a (PyInt 1000) # num_mul b (PyInt 1000) # rest, ''m'' @ u)
      | _ \<Rightarrow> (r, u))"

definition milli :: "(unit, call_log) collab" where
  "milli = recording\<lparr>rescale_dim := to_milli\<rparr>"

definition fresh :: "(unit, call_log) state" where
  "fresh = \<lparr>backend = BackendMissing, out = [], world = []\<rparr>"

definition int_val :: "int \<Rightarrow> pyval" where
  "int_val i = PyNum (PyInt i)"

text \<open>
  An element of the data is a pair when \<open>ay_i[0]\<close> and \<open>ay_i[1]\<close> both succeed;
  \<open>pair_x\<close> and \<open>pair_y\<close> are the two values.
\<close>

definition pair_ok :: "pyval \<Rightarrow> bool" where
  "pair_ok v = (case py_getitem v 0 of Inl e \<Rightarrow> False
                | Inr a \<Rightarrow> (case py_getitem v 1 of Inl e \<Rightarrow> False | Inr b \<Rightarrow> True))"

definition pair_x :: "pyval \<Rightarrow> pyval" where
  "pair_x v = (case py_getitem v 0 of Inr a \<Rightarrow> a | Inl e \<Rightarrow> PyNone)"

definition pair_y :: "pyval \<Rightarrow> pyval" where
  "pair_y v = (case py_getitem v 1 of Inr b \<Rightarrow> b | Inl e \<Rightarrow> PyNone)"

section \<open>Properties\<close>

subsection \<open>The handle: initialisation, proxy, no-op backend\<close>

lemma backend_method_real:
  "backend s = BackendReal b \<Longrightarrow>
   backend_method C caller attr args kwargs s =
     (case invoke C b attr args kwargs (world s) of (r, w) \<Rightarrow> (r, s\<lparr>world := w\<rparr>))"
  by (simp add: backend_method.simps)

lemma backend_method_none:
  "backend s = BackendNone \<Longrightarrow> backend_method C caller attr args kwargs s = (Inr PyNone, s)"
  by (simp add: backend_method.simps)

lemma backend_method_missing:
  "backend s = BackendMissing \<Longrightarrow>
   backend_method C caller attr args kwargs s =
     (case uti_plot_init C (Some DEFAULT_BACKEND) None s of
        (Inl e, s1) \<Rightarrow> (Inl e, s1)
      | (Inr u, s1) \<Rightarrow> backend_method C ''_backend_call'' caller args [] s1)"
  by (subst backend_method.simps) simp

text \<open>
  Claim C1. \<open>uti_plot_init(None, f)\<close> with a file name pattern \<open>f\<close> raises ValueError,
  with a message that names \<open>fname_format\<close>, and leaves the state (the handle with it)
  as it was; \<open>uti_plot_init(None, None)\<close> installs the no-op backend and returns; and
  whenever the construction of the backend \<open>b\<close> fails, the call returns normally with
  the no-op backend installed, the trace and the notice printed.
\<close>
theorem uti_plot_init_contract:
  "uti_plot_init C None (Some f) s =
     (Inl (ValueError (f @ '': fname_format must be null if backend is None'')), s)
   \<and> uti_plot_init C None None s = (Inr (), s\<lparr>backend := BackendNone\<rparr>)
   \<and> (\<forall>b fmt e w. construct C b fmt (world s) = (Inl e, w) \<longrightarrow>
        uti_plot_init C (Some b) fmt s =
          (Inr (), s\<lparr>backend := BackendNone,
             out := out s @ [Traceback e,
               Line (b @ '': unable to import specified backend (or its dependency); no plots'')],
             world := w\<rparr>))"
  by (simp add: uti_plot_init_def)

theorem uti_plot_init_contract_witness:
  "construct headless ''TkAgg'' None (world fresh) = (Inl (Exception ''No module named matplotlib''), [])
   \<and> uti_plot_init headless (Some ''TkAgg'') None fresh =
       (Inr (), \<lparr>backend = BackendNone,
          out = [Traceback (Exception ''No module named matplotlib''),
                 Line ''TkAgg: unable to import specified backend (or its dependency); no plots''],
          world = []\<rparr>)"
proof -
  have h: "construct headless ''TkAgg'' None (world fresh)
      = (Inl (Exception ''No module named matplotlib''), [])"
    by (simp add: headless_def recording_def fresh_def)
  from uti_plot_init_contract [of headless _ fresh]
  have "uti_plot_init headless (Some ''TkAgg'') None fresh =
          (Inr (), fresh\<lparr>backend := BackendNone,
             out := out fresh @ [Traceback (Exception ''No module named matplotlib''),
               Line (''TkAgg'' @ '': unable to import specified backend (or its dependency); no plots'')],
             world := []\<rparr>)"
    using h by blast
  with h show ?thesis by (simp add: fresh_def)
qed

text \<open>
  Claim C2. A method called while the handle is the proxy runs \<open>uti_plot_init()\<close> with
  the defaults once (the constructor acts on the world once) and then calls, on the
  handle now installed, the method named after the calling function, with the
  positional arguments as they were and no keyword argument. In every plot function
  the calling function and the attribute have the same name.
\<close>
theorem missing_proxy_forwards:
  assumes "backend s = BackendMissing"
  shows "backend_method C caller attr args kwargs s =
           (case uti_plot_init C (Some DEFAULT_BACKEND) None s of
              (r0, s1) \<Rightarrow> backend_method C ''_backend_call'' caller args [] s1)
       \<and> backend_method C caller attr args kwargs s =
           (case construct C DEFAULT_BACKEND None (world s) of
              (Inr b, w) \<Rightarrow>
                (case invoke C b caller args [] w of
                   (r, w') \<Rightarrow> (r, s\<lparr>backend := BackendReal b, world := w'\<rparr>))
            | (Inl e, w) \<Rightarrow>
                (Inr PyNone, s\<lparr>backend := BackendNone,
                   out := out s @ [Traceback e,
                     Line (DEFAULT_BACKEND @ '': unable to import specified backend (or its dependency); no plots'')],
                   world := w\<rparr>))"
  using assms
  by (auto simp: backend_method_missing backend_method_real backend_method_none uti_plot_init_def
      split: prod.splits sum.splits)

text \<open>
  Claim C9. On the no-op backend every method, whatever the positional and keyword
  arguments, returns \<open>None\<close>, raises nothing and leaves the whole state (handle,
  printed lines, outside world) as it was.
\<close>
theorem none_backend_discards:
  "backend s = BackendNone \<Longrightarrow> backend_method C caller attr args kwargs s = (Inr PyNone, s)"
  by (rule backend_method_none)


theorem missing_proxy_forwards_witness:
  "backend fresh = BackendMissing
   \<and> backend_method recording ''uti_plot_show'' ''uti_plot_show'' [int_val 1] [(''block'', PyBool True)] fresh =
       (Inr PyNone, \<lparr>backend = BackendReal (), out = [],
          world = [(''uti_plot_show'', [int_val 1], [])]\<rparr>)"
proof -
  have h: "backend fresh = BackendMissing"
    by (simp add: fresh_def)
  from missing_proxy_forwards [OF h, THEN conjunct2, of recording "''uti_plot_show''"
      "''uti_plot_show''" "[int_val 1]" "[(''block'', PyBool True)]"]
  show ?thesis
    by (simp add: h recording_def fresh_def)
qed

theorem none_backend_discards_witness:
  "backend (fresh\<lparr>backend := BackendNone\<rparr>) = BackendNone
   \<and> backend_method recording ''uti_plot1d'' ''uti_plot1d'' [int_val 1] [(''color'', PyStr ''r'')]
        (fresh\<lparr>backend := BackendNone\<rparr>) = (Inr PyNone, fresh\<lparr>backend := BackendNone\<rparr>)"
proof -
  have h: "backend (fresh\<lparr>backend := BackendNone\<rparr>) = BackendNone"
    by simp
  from none_backend_discards [OF h] h show ?thesis
    by simp
qed

lemma getitem_ok: "i < length xs \<Longrightarrow> getitem xs i = Inr (xs ! i)"
  by (simp add: getitem_def)

lemma bindE_Inr: "bindE (Inr v) f = f v"
  by (simp add: bindE_def)

lemma bindE_Inl: "bindE (Inl e) f = Inl e"
  by (simp add: bindE_def)

lemma decorate_ok:
  "2 \<le> length labels \<Longrightarrow> 2 \<le> length units \<Longrightarrow>
   decorate labels units =
     Inr [labels ! 0 @ '' ['' @ units ! 0 @ '']'', labels ! 1 @ '' ['' @ units ! 1 @ '']'',
          if length labels < 3 then [] else labels ! 2]"
proof -
  assume "2 \<le> length labels" and "2 \<le> length units"
  then have "getitem labels 0 = Inr (labels ! 0)" "getitem labels 1 = Inr (labels ! 1)"
    "getitem units 0 = Inr (units ! 0)" "getitem units 1 = Inr (units ! 1)"
    by (auto simp: getitem_def)
  then show ?thesis
    by (simp add: decorate_def bindE_Inr)
qed

lemma uti_plot1d_some:
  assumes "2 \<le> length labels" and "2 \<le> length units"
  shows "uti_plot1d C ar1d x_range labels (Some units) s =
     discard (backend_method C ''uti_plot1d'' ''uti_plot1d''
       [ar1d, range_val (fst (rescale_dim C x_range (units ! 0))),
        PyTuple [PyStr (labels ! 0 @ '' ['' @ snd (rescale_dim C x_range (units ! 0)) @ '']''),
                 PyStr (labels ! 1 @ '' ['' @ units ! 1 @ '']''),
                 PyStr (if length labels < 3 then [] else labels ! 2)]] [] s)"
proof -
  from assms have "getitem units 0 = Inr (units ! 0)" "getitem units 1 = Inr (units ! 1)"
    by (auto simp: getitem_def)
  with assms show ?thesis
    by (simp add: uti_plot1d_def bindE_Inr decorate_ok labels_val_def split: prod.splits)
qed

text \<open>
  Claim C5. With units, \<open>uti_plot1d\<close> hands the backend the range rescaled by
  \<open>rescale_dim\<close> with the first unit, and the three labels: the first label with the
  rescaled unit in brackets, the second with the second unit in brackets, and the
  third label, or the empty string when fewer than three labels were given. With the
  identity for \<open>rescale_dim\<close>, range \<open>(0, 10, 5)\<close>, labels \<open>('E', 'I')\<close> and units
  \<open>('eV', 'ph')\<close> the labels are \<open>('E [eV]', 'I [ph]', '')\<close>.
\<close>
theorem uti_plot1d_units_labels:
  "(2 \<le> length labels \<and> 2 \<le> length units \<longrightarrow>
      uti_plot1d C ar1d x_range labels (Some units) s =
        discard (backend_method C ''uti_plot1d'' ''uti_plot1d''
          [ar1d, range_val (fst (rescale_dim C x_range (units ! 0))),
           PyTuple [PyStr (labels ! 0 @ '' ['' @ snd (rescale_dim C x_range (units ! 0)) @ '']''),
                    PyStr (labels ! 1 @ '' ['' @ units ! 1 @ '']''),
                    PyStr (if length labels < 3 then [] else labels ! 2)]] [] s))
   \<and> (rescale_dim C = (\<lambda>r u. (r, u)) \<longrightarrow>
      uti_plot1d C ar1d [PyInt 0, PyInt 10, PyInt 5] [''E'', ''I''] (Some [''eV'', ''ph'']) s =
        discard (backend_method C ''uti_plot1d'' ''uti_plot1d''
          [ar1d, range_val [PyInt 0, PyInt 10, PyInt 5],
           PyTuple [PyStr ''E [eV]'', PyStr ''I [ph]'', PyStr '''']] [] s))"
proof (intro conjI impI)
  assume "2 \<le> length labels \<and> 2 \<le> length units"
  then show "uti_plot1d C ar1d x_range labels (Some units) s =
        discard (backend_method C ''uti_plot1d'' ''uti_plot1d''
          [ar1d, range_val (fst (rescale_dim C x_range (units ! 0))),
           PyTuple [PyStr (labels ! 0 @ '' ['' @ snd (rescale_dim C x_range (units ! 0)) @ '']''),
                    PyStr (labels ! 1 @ '' ['' @ units ! 1 @ '']''),
                    PyStr (if length labels < 3 then [] else labels ! 2)]] [] s)"
    by (simp add: uti_plot1d_some)
next
  assume id: "rescale_dim C = (\<lambda>r u. (r, u))"
  show "uti_plot1d C ar1d [PyInt 0, PyInt 10, PyInt 5] [''E'', ''I''] (Some [''eV'', ''ph'']) s =
        discard (backend_method C ''uti_plot1d'' ''uti_plot1d''
          [ar1d, range_val [PyInt 0, PyInt 10, PyInt 5],
           PyTuple [PyStr ''E [eV]'', PyStr ''I [ph]'', PyStr '''']] [] s)"
    by (simp add: uti_plot1d_some id)
qed

lemma discard_simps:
  "discard (Inl e, s) = (Inl e, s)" "discard (Inr v, s) = (Inr (), s)"
  by (simp_all add: discard_def)

theorem uti_plot1d_units_labels_witness:
  "rescale_dim recording = (\<lambda>r u. (r, u))
   \<and> uti_plot1d recording (PyList [int_val 3, int_val 1, int_val 4, int_val 1, int_val 5])
        [PyInt 0, PyInt 10, PyInt 5] [''E'', ''I''] (Some [''eV'', ''ph'']) fresh =
       (Inr (), \<lparr>backend = BackendReal (), out = [],
          world = [(''uti_plot1d'',
            [PyList [int_val 3, int_val 1, int_val 4, int_val 1, int_val 5],
             PyList [int_val 0, int_val 10, int_val 5],
             PyTuple [PyStr ''E [eV]'', PyStr ''I [ph]'', PyStr '''']], [])]\<rparr>)"
proof -
  have id: "rescale_dim recording = (\<lambda>r u. (r, u))"
    by (simp add: recording_def)
  have call: "backend_method recording ''uti_plot1d'' ''uti_plot1d'' args [] fresh =
      (Inr PyNone, \<lparr>backend = BackendReal (), out = [], world = [(''uti_plot1d'', args, [])]\<rparr>)"
    for args
    by (simp add: backend_method_missing backend_method_real uti_plot_init_def fresh_def
        recording_def)
  from uti_plot1d_units_labels [of "[]" "[]" recording
      "PyList [int_val 3, int_val 1, int_val 4, int_val 1, int_val 5]" "[]" fresh] id
  show ?thesis
    by (simp add: call discard_simps range_val_def int_val_def)
qed

subsection \<open>Curves given as pairs\<close>

lemma is_sequence_list: "is_sequence (PyList xs) = Inr True"
  by (simp add: is_sequence_def load_name_def builtin_classes_def bindE_Inr)

lemma load_array: "load_name ''array'' = Inl (NameError ''array'')"
  by (simp add: load_name_def builtin_classes_def)

lemma is_sequence_not_list:
  "(\<And>xs. v \<noteq> PyList xs) \<Longrightarrow> is_sequence v = Inl (NameError ''array'')"
  by (cases v) (auto simp: is_sequence_def load_name_def builtin_classes_def bindE_Inr bindE_Inl)

text \<open>
  Claim C3. The claim asks that, with \<open>arx\<close> omitted, a list, a tuple and an array be
  accepted and anything else be refused with the generic exception of line 115. The
  code accepts a list only: for every other argument the second disjunct of line 114
  is evaluated and loads the unbound name \<open>array\<close>, so that a tuple, an array and a
  value that is no container at all end in NameError alike.
\<close>
theorem uti_plot1d_ir_only_lists:
  "uti_plot1d_ir C (PyTuple ps) PyNone labels None s = (Inl (NameError ''array''), s)
   \<and> uti_plot1d_ir C (PyArray ps) PyNone labels None s = (Inl (NameError ''array''), s)
   \<and> uti_plot1d_ir C (PyNum n) PyNone labels None s = (Inl (NameError ''array''), s)
   \<and> uti_plot1d_ir C (PyStr cs) PyNone labels None s = (Inl (NameError ''array''), s)
   \<and> uti_plot1d_ir C PyNone PyNone labels None s = (Inl (NameError ''array''), s)"
  by (simp add: uti_plot1d_ir_def is_sequence_not_list bindE_Inl)

text \<open>
  Claim C4. The claim asks that every sequence of pairs be split into the list of the
  first components and the list of the second components. For the tuple of the pairs
  \<open>(1, 1)\<close>, \<open>(2, 4)\<close>, \<open>(3, 9)\<close> the code raises NameError and hands nothing to the
  backend, by the unbound name of line 114. The lemmas that follow show that a list
  of pairs is split as the claim says.
\<close>
theorem uti_plot1d_ir_tuple_of_pairs:
  "uti_plot1d_ir recording
     (PyTuple [PyTuple [int_val 1, int_val 1], PyTuple [int_val 2, int_val 4],
               PyTuple [int_val 3, int_val 9]])
     PyNone [''x'', ''y''] None fresh = (Inl (NameError ''array''), fresh)"
  by (simp add: uti_plot1d_ir_def is_sequence_not_list bindE_Inl)

lemma pairs_loop_inv:
  "list_all pair_ok es \<Longrightarrow> i \<le> length es \<Longrightarrow> length ax = length es \<Longrightarrow> length ay = length es \<Longrightarrow>
   pairs_loop (PyList es) (length es) i ax ay =
     Inr (take i ax @ map pair_x (drop i es), take i ay @ map pair_y (drop i es))"
proof (induction "length es - i" arbitrary: i ax ay)
  case 0
  then show ?case
    by (simp add: pairs_loop.simps)
next
  case (Suc k)
  then have lt: "i < length es"
    by simp
  with Suc.prems(1) have ok: "pair_ok (es ! i)"
    by (simp add: list_all_length)
  then obtain a b where a: "py_getitem (es ! i) 0 = Inr a" and b: "py_getitem (es ! i) 1 = Inr b"
    by (auto simp: pair_ok_def split: sum.splits)
  have k: "k = length es - Suc i"
    using Suc.hyps(2) by simp
  have ih: "pairs_loop (PyList es) (length es) (Suc i) (ax[i := a]) (ay[i := b]) =
      Inr (take (Suc i) (ax[i := a]) @ map pair_x (drop (Suc i) es),
           take (Suc i) (ay[i := b]) @ map pair_y (drop (Suc i) es))"
    using Suc.hyps(1) [OF k Suc.prems(1)] lt Suc.prems(3,4) by simp
  have dx: "drop i es = es ! i # drop (Suc i) es"
    using lt by (simp add: Cons_nth_drop_Suc)
  have tx: "take (Suc i) (ax[i := a]) = take i ax @ [a]"
    using lt Suc.prems(3) by (simp add: take_Suc_conv_app_nth)
  have ty: "take (Suc i) (ay[i := b]) = take i ay @ [b]"
    using lt Suc.prems(4) by (simp add: take_Suc_conv_app_nth)
  show ?case
    apply (subst pairs_loop.simps)
    using lt a b ih dx tx ty
    by (simp add: getitem_ok pair_x_def pair_y_def)
qed

lemma uti_plot1d_ir_list:
  assumes "list_all pair_ok es"
  shows "uti_plot1d_ir C (PyList es) PyNone labels None s =
     discard (backend_method C ''uti_plot1d_ir'' ''uti_plot1d_ir''
       [PyList (map pair_y es), PyList (map pair_x es), labels_val labels] [] s)"
  using pairs_loop_inv [OF assms, of 0 "replicate (length es) (PyNum (PyInt 0))"
      "replicate (length es) (PyNum (PyInt 0))"]
  by (simp add: uti_plot1d_ir_def is_sequence_list bindE_Inr)

lemma uti_plot1d_ir_list_example:
  "uti_plot1d_ir recording
     (PyList [PyList [int_val 1, int_val 1], PyList [int_val 2, int_val 4],
               PyList [int_val 3, int_val 9]])
     PyNone [''x'', ''y''] None fresh =
   (Inr (), \<lparr>backend = BackendReal (), out = [],
      world = [(''uti_plot1d_ir'',
        [PyList [int_val 1, int_val 4, int_val 9], PyList [int_val 1, int_val 2, int_val 3],
         PyTuple [PyStr ''x'', PyStr ''y'']], [])]\<rparr>)"
proof -
  have call: "backend_method recording ''uti_plot1d_ir'' ''uti_plot1d_ir'' args [] fresh =
      (Inr PyNone, \<lparr>backend = BackendReal (), out = [], world = [(''uti_plot1d_ir'', args, [])]\<rparr>)"
    for args
    by (simp add: backend_method_missing backend_method_real uti_plot_init_def fresh_def
        recording_def)
  show ?thesis
    by (subst uti_plot1d_ir_list)
      (simp_all add: pair_ok_def pair_x_def pair_y_def getitem_def call discard_simps
        labels_val_def)
qed

subsection \<open>Mesh plots\<close>

lemma uti_plot2d_passthrough:
  "units = None \<or> x_range = None \<or> y_range = None \<Longrightarrow>
   uti_plot2d C ar2d x_range y_range labels units s =
     discard (backend_method C ''uti_plot2d'' ''uti_plot2d''
       [ar2d, opt_range_val x_range, opt_range_val y_range, labels_val labels] [] s)"
  by (auto simp: uti_plot2d_def split: option.splits)

lemma uti_plot2d_rescaled:
  assumes "3 \<le> length us" and "2 \<le> length labels"
  shows "uti_plot2d C ar2d (Some xr) (Some yr) labels (Some us) s =
     discard (backend_method C ''uti_plot2d'' ''uti_plot2d''
       [ar2d, range_val (fst (rescale_dim C xr (us ! 0))),
        range_val (fst (rescale_dim C yr (us ! 1))),
        PyTuple [PyStr (labels ! 0 @ '' ['' @ snd (rescale_dim C xr (us ! 0)) @ '']''),
                 PyStr (labels ! 1 @ '' ['' @ snd (rescale_dim C yr (us ! 1)) @ '']''),
                 PyStr (if length labels < 3 then [] else labels ! 2)]] [] s)"
proof -
  from assms have "getitem us 0 = Inr (us ! 0)" "getitem us 1 = Inr (us ! 1)"
    "getitem us 2 = Inr (us ! 2)"
    by (auto simp: getitem_def)
  with assms show ?thesis
    by (simp add: uti_plot2d_def bindE_Inr decorate_ok labels_val_def split: prod.splits)
qed

lemma decorated_differs:
  assumes "2 \<le> length labels"
  shows "PyTuple [PyStr (labels ! 0 @ '' ['' @ u @ '']''), PyStr b, PyStr c] \<noteq> labels_val labels"
proof -
  from assms obtain l ls where "labels = l # ls"
    by (cases labels) auto
  then show ?thesis
    by (simp add: labels_val_def)
qed

text \<open>
  Claim C6. \<open>uti_plot2d\<close> rescales the ranges and puts the units into the labels
  exactly when the units and both ranges are given. When the units or one of the
  ranges is \<open>None\<close>, ranges and labels reach the backend as they were passed. When
  all three are given the backend gets both ranges from \<open>rescale_dim\<close> and the labels
  with the rescaled units in brackets, which are never the labels that were passed.
\<close>
theorem uti_plot2d_rescale_condition:
  "((units = None \<or> x_range = None \<or> y_range = None) \<longrightarrow>
      uti_plot2d C ar2d x_range y_range labels units s =
        discard (backend_method C ''uti_plot2d'' ''uti_plot2d''
          [ar2d, opt_range_val x_range, opt_range_val y_range, labels_val labels] [] s))
   \<and> (3 \<le> length us \<and> 2 \<le> length labels \<longrightarrow>
      uti_plot2d C ar2d (Some xr) (Some yr) labels (Some us) s =
        discard (backend_method C ''uti_plot2d'' ''uti_plot2d''
          [ar2d, range_val (fst (rescale_dim C xr (us ! 0))),
           range_val (fst (rescale_dim C yr (us ! 1))),
           PyTuple [PyStr (labels ! 0 @ '' ['' @ snd (rescale_dim C xr (us ! 0)) @ '']''),
                    PyStr (labels ! 1 @ '' ['' @ snd (rescale_dim C yr (us ! 1)) @ '']''),
                    PyStr (if length labels < 3 then [] else labels ! 2)]] [] s)
      \<and> PyTuple [PyStr (labels ! 0 @ '' ['' @ snd (rescale_dim C xr (us ! 0)) @ '']''),
                  PyStr (labels ! 1 @ '' ['' @ snd (rescale_dim C yr (us ! 1)) @ '']''),
                  PyStr (if length labels < 3 then [] else labels ! 2)] \<noteq> labels_val labels)"
  using uti_plot2d_passthrough [of units x_range y_range C ar2d labels s]
    uti_plot2d_rescaled [of us labels C ar2d xr yr s]
    decorated_differs [of labels]
  by blast

lemma milli_call:
  "backend_method milli name name args [] fresh =
     (Inr PyNone, \<lparr>backend = BackendReal (), out = [], world = [(name, args, [])]\<rparr>)"
  by (simp add: backend_method_missing backend_method_real uti_plot_init_def fresh_def
      recording_def milli_def)

theorem uti_plot2d_rescale_condition_witness:
  "uti_plot2d milli (PyList []) (Some [PyInt 0, PyInt 2, PyInt 5]) None [''X'', ''Y'', ''I'']
       (Some [''m'', ''m'', ''a.u.'']) fresh =
     (Inr (), \<lparr>backend = BackendReal (), out = [],
        world = [(''uti_plot2d'',
          [PyList [], PyList [int_val 0, int_val 2, int_val 5], PyNone,
           PyTuple [PyStr ''X'', PyStr ''Y'', PyStr ''I'']], [])]\<rparr>)
   \<and> uti_plot2d milli (PyList []) (Some [PyInt 0, PyInt 2, PyInt 5])
       (Some [PyInt 0, PyInt 4, PyInt 3]) [''X'', ''Y'', ''I'']
       (Some [''m'', ''m'', ''a.u.'']) fresh =
     (Inr (), \<lparr>backend = BackendReal (), out = [],
        world = [(''uti_plot2d'',
          [PyList [], PyList [int_val 0, int_val 2000, int_val 5],
           PyList [int_val 0, int_val 4000, int_val 3],
           PyTuple [PyStr ''X [mm]'', PyStr ''Y [mm]'', PyStr ''I'']], [])]\<rparr>)"
proof -
  have r: "rescale_dim milli = to_milli"
    by (simp add: milli_def recording_def)
  from uti_plot2d_rescale_condition [of "Some [''m'', ''m'', ''a.u.'']"
      "Some [PyInt 0, PyInt 2, PyInt 5]" None milli "PyList []" "[''X'', ''Y'', ''I'']" fresh
      "[''m'', ''m'', ''a.u.'']" "[PyInt 0, PyInt 2, PyInt 5]" "[PyInt 0, PyInt 4, PyInt 3]"]
  show ?thesis
    by (simp add: milli_call discard_simps r to_milli_def opt_range_val_def range_val_def
        labels_val_def int_val_def)
qed

subsection \<open>Mesh plots with cuts\<close>























subsection \<open>Plots from a data file\<close>

text \<open>
  Claim C10. \<open>uti_data_file_plot\<close> and \<open>uti_plot_data_file\<close> agree on all arguments
  and all states: result and final state are the same, and both are the call of the
  backend method \<open>uti_plot_data_file\<close> with the eleven arguments in the order given.
\<close>
theorem data_file_plot_alias:
  "uti_data_file_plot C fname read_labels e x y graphs_joined multicolumn_data column_x
       column_y scale width_pixels s =
   uti_plot_data_file C fname read_labels e x y graphs_joined multicolumn_data column_x
       column_y scale width_pixels s
   \<and> uti_plot_data_file C fname read_labels e x y graphs_joined multicolumn_data column_x
       column_y scale width_pixels s =
     discard (backend_method C ''uti_plot_data_file'' ''uti_plot_data_file''
       [fname, read_labels, e, x, y, graphs_joined, multicolumn_data, column_x, column_y,
        scale, width_pixels] [] s)"
  by (simp add: uti_data_file_plot_def uti_plot_data_file_def discard_def
      split: prod.splits sum.splits)

end
